theory Spec2Isabelle
  imports Complex_Main
begin

section \<open>Scoring and trend detection of the token monitor\<close>

text \<open>
  The development embeds the pure functions of \<^verbatim>\<open>token_jt.py\<close> and
  \<^verbatim>\<open>token_depth.py\<close> (\<^verbatim>\<open>calculate_depth\<close>, \<^verbatim>\<open>evaluate_liquidity\<close>,
  \<^verbatim>\<open>assess_risk\<close>, \<^verbatim>\<open>standardize_score\<close>, identical in both files), the body
  of the loop of \<^verbatim>\<open>monitor_token\<close> and the verdict at the end of \<^verbatim>\<open>main\<close>.

  Modelling conventions.
  \<^item> A Python \<^verbatim>\<open>float\<close> that the code reads is a \<^typ>\<open>real\<close>: a finite binary64
    value. Infinite and NaN inputs are outside the model.
  \<^item> The float arithmetic of \<^verbatim>\<open>monitor_token\<close>, \<^verbatim>\<open>evaluate_liquidity\<close> and
    \<^verbatim>\<open>fetch_order_book_eth\<close> is binary64 arithmetic: every operation and every
    literal is rounded to the nearest binary64 value, ties to even, by
    \<open>round_binary64\<close>. \<^verbatim>\<open>assess_risk\<close> only compares, and \<^verbatim>\<open>standardize_score\<close> is
    kept as the expression the code writes down.
  \<^item> A raised exception is \<open>Inl e\<close>, a returned value is \<open>Inr v\<close>.
  \<^item> The builtin \<^verbatim>\<open>float(x)\<close> applied to a raw field of a response is a parameter
    \<open>pyfloat\<close> of the functions that call it: it returns the number, or the
    \<^verbatim>\<open>ValueError\<close>/\<^verbatim>\<open>TypeError\<close> that Python raises.
  \<^item> Logging, mail and sleeping are recorded as events.
\<close>

subsection \<open>Binary64 arithmetic\<close>

text \<open>Rounding to the nearest integer, a tie going to the even one.\<close>

definition round_half_even :: "real \<Rightarrow> int" where
  "round_half_even x =
     (let f = \<lfloor>x\<rfloor>
      in if x - of_int f < 1 / 2 then f
         else if 1 / 2 < x - of_int f then f + 1
         else if even f then f else f + 1)"

text \<open>
  The exponent \<open>e\<close> with \<open>2 ^ e \<le> \<bar>x\<bar> < 2 ^ (e + 1)\<close>, and \<open>-1022\<close> for the
  subnormal numbers below \<open>2 ^ -1022\<close>.
\<close>

definition binary64_exponent :: "real \<Rightarrow> int" where
  "binary64_exponent x = max \<lfloor>log 2 \<bar>x\<bar>\<rfloor> (- 1022)"

text \<open>
  The binary64 value nearest to a real: a multiple of the unit in the last of the 53
  places of \<open>x\<close>. The exponent is not bounded above here: a result of magnitude
  \<open>2 ^ 1024\<close> or more is the one that binary64 replaces by an infinity.
\<close>

definition round_binary64 :: "real \<Rightarrow> real" where
  "round_binary64 x =
     (if x = 0 then 0
      else let ulp = 2 powr of_int (binary64_exponent x - 52)
           in of_int (round_half_even (x / ulp)) * ulp)"

text \<open>
  The result of an operation on finite floats that can overflow: a finite value or an
  infinity. Python raises nothing on overflow of \<^verbatim>\<open>-\<close> and \<^verbatim>\<open>/\<close>.
\<close>

datatype float64 = Finite real | PosInf | NegInf

definition overflow_to_inf :: "real \<Rightarrow> float64" where
  "overflow_to_inf r =
     (if 2 ^ 1024 \<le> r then PosInf
      else if r \<le> - (2 ^ 1024) then NegInf
      else Finite r)"

text \<open>\<^verbatim>\<open>a - b\<close> on two finite floats.\<close>

definition float_sub :: "real \<Rightarrow> real \<Rightarrow> float64" where
  "float_sub a b = overflow_to_inf (round_binary64 (a - b))"

text \<open>\<^verbatim>\<open>x / d\<close> for a finite divisor \<open>d\<close> that is not zero.\<close>

definition float_div :: "float64 \<Rightarrow> real \<Rightarrow> float64" where
  "float_div x d =
     (case x of
        Finite a \<Rightarrow> overflow_to_inf (round_binary64 (a / d))
      | PosInf \<Rightarrow> (if 0 < d then PosInf else NegInf)
      | NegInf \<Rightarrow> (if 0 < d then NegInf else PosInf))"

text \<open>\<^verbatim>\<open>x > t\<close> for a finite \<open>t\<close>.\<close>

definition float_greater :: "float64 \<Rightarrow> real \<Rightarrow> bool" where
  "float_greater x t =
     (case x of
        Finite a \<Rightarrow> t < a
      | PosInf \<Rightarrow> True
      | NegInf \<Rightarrow> False)"

subsection \<open>Constants\<close>

definition MAX_LIQUIDITY_SCORE :: real where
  "MAX_LIQUIDITY_SCORE = 100"

definition MAX_RISK_SCORE :: real where
  "MAX_RISK_SCORE = 50"

definition ORDER_BOOK_DEPTH :: nat where
  "ORDER_BOOK_DEPTH = 10"

definition CHECK_INTERVAL :: nat where
  "CHECK_INTERVAL = 300"

definition PRICE_HISTORY_LENGTH :: nat where
  "PRICE_HISTORY_LENGTH = 5"

definition PRICE_INCREASE_THRESHOLD :: real where
  "PRICE_INCREASE_THRESHOLD = round_binary64 (1 / 10)"

definition LIQUIDITY_THRESHOLD :: real where
  "LIQUIDITY_THRESHOLD = 80"

subsection \<open>Errors and the order book\<close>

datatype py_error =
  ZeroDivisionError | IndexError | KeyError | NameError | ValueError | TypeError

text \<open>
  The order book is a Python dict read under four keys. A field is \<open>None\<close> when the
  key is not in the dict. \<open>ob_other_keys\<close> tells whether the dict holds any further
  key (the code never reads one, but \<^verbatim>\<open>not order_book\<close> sees it). Levels are
  pairs (price, size) of raw values; the price under \<^verbatim>\<open>'price'\<close> is a float.
\<close>

record 'v order_book =
  ob_bids :: "('v \<times> 'v) list option"
  ob_asks :: "('v \<times> 'v) list option"
  ob_price :: "real option"
  ob_estimatedPriceImpact :: "'v option"
  ob_other_keys :: bool

text \<open>
  Truth value of an \<^verbatim>\<open>Optional[Dict]\<close>, as \<^verbatim>\<open>not order_book\<close> tests it:
  \<^verbatim>\<open>None\<close> and the dict with no key are false.
\<close>

definition dict_empty :: "'v order_book \<Rightarrow> bool" where
  "dict_empty ob =
     (ob_bids ob = None \<and> ob_asks ob = None \<and> ob_price ob = None
      \<and> ob_estimatedPriceImpact ob = None \<and> \<not> ob_other_keys ob)"

definition truthy :: "'v order_book option \<Rightarrow> bool" where
  "truthy order_book =
     (case order_book of
        None \<Rightarrow> False
      | Some ob \<Rightarrow> \<not> dict_empty ob)"

subsection \<open>\<^verbatim>\<open>assess_risk\<close> and \<^verbatim>\<open>standardize_score\<close>\<close>

text \<open>
  The \<^verbatim>\<open>if\<close>/\<^verbatim>\<open>elif\<close>/\<^verbatim>\<open>else\<close> chain of \<^verbatim>\<open>assess_risk\<close>: \<open>Some v\<close> when a branch
  executes \<^verbatim>\<open>return v\<close>, \<open>None\<close> when control falls through to the next statement.
\<close>

definition assess_risk_chain :: "real \<Rightarrow> real option" where
  "assess_risk_chain price =
     (if price < 1 / 100 then Some MAX_RISK_SCORE
      else if price < 1 then Some (MAX_RISK_SCORE / 2)
      else Some (MAX_RISK_SCORE / 4))"

text \<open>
  The statement after the chain reads the name \<^verbatim>\<open>price_history\<close>, which is bound
  neither in the function nor in the module: executing it raises \<^verbatim>\<open>NameError\<close>.
\<close>

definition assess_risk :: "real \<Rightarrow> py_error + real" where
  "assess_risk price =
     (case assess_risk_chain price of
        Some v \<Rightarrow> Inr v
      | None \<Rightarrow> Inl NameError)"

text \<open>Python's \<^verbatim>\<open>min(a, b)\<close> and \<^verbatim>\<open>max(a, b)\<close>: the first argument wins a tie.\<close>

definition py_min :: "real \<Rightarrow> real \<Rightarrow> real" where
  "py_min a b = (if b < a then b else a)"

definition py_max :: "real \<Rightarrow> real \<Rightarrow> real" where
  "py_max a b = (if a < b then b else a)"

definition standardize_score :: "real \<Rightarrow> real \<Rightarrow> real" where
  "standardize_score liquidity_score risk_score =
     (let standardized_score =
            (liquidity_score / MAX_LIQUIDITY_SCORE) * 60 - (risk_score / MAX_RISK_SCORE) * 40
      in py_max 0 (py_min 100 standardized_score))"

text \<open>The clamp of the specification, written as the specification reads it.\<close>

definition spec_clamp :: "real \<Rightarrow> real \<Rightarrow> real \<Rightarrow> real" where
  "spec_clamp lo hi x = (if x < lo then lo else if hi < x then hi else x)"

subsection \<open>\<^verbatim>\<open>calculate_depth\<close> and \<^verbatim>\<open>evaluate_liquidity\<close>\<close>

text \<open>
  \<^verbatim>\<open>sum(float(lvl[1]) for lvl in levels)\<close>: the accumulator starts at 0 and the levels
  are added from the left; the first \<^verbatim>\<open>float\<close> that raises ends the sum.
\<close>

fun sum_sizes :: "('v \<Rightarrow> py_error + real) \<Rightarrow> real \<Rightarrow> ('v \<times> 'v) list \<Rightarrow> py_error + real" where
  "sum_sizes pyfloat acc [] = Inr acc"
| "sum_sizes pyfloat acc (lvl # rest) =
     (case pyfloat (snd lvl) of
        Inl e \<Rightarrow> Inl e
      | Inr x \<Rightarrow> sum_sizes pyfloat (acc + x) rest)"

text \<open>\<^verbatim>\<open>float(levels[0][0])\<close>: indexing an empty list raises \<^verbatim>\<open>IndexError\<close>.\<close>

definition best_price :: "('v \<Rightarrow> py_error + real) \<Rightarrow> ('v \<times> 'v) list \<Rightarrow> py_error + real" where
  "best_price pyfloat levels =
     (case levels of
        [] \<Rightarrow> Inl IndexError
      | lvl # _ \<Rightarrow> pyfloat (fst lvl))"

text \<open>
  The result is a triple of \<^verbatim>\<open>Optional[float]\<close>; \<open>(None, None, None)\<close> is what the
  guard returns after logging "Invalid order book data".
\<close>

definition calculate_depth ::
  "('v \<Rightarrow> py_error + real) \<Rightarrow> 'v order_book option
     \<Rightarrow> py_error + (real option \<times> real option \<times> real option)" where
  "calculate_depth pyfloat order_book =
     (case order_book of
        None \<Rightarrow> Inr (None, None, None)
      | Some ob \<Rightarrow>
          (if \<not> truthy order_book then Inr (None, None, None)
           else case ob_bids ob of
             None \<Rightarrow> Inr (None, None, None)
           | Some all_bids \<Rightarrow>
           (case ob_asks ob of
             None \<Rightarrow> Inr (None, None, None)
           | Some all_asks \<Rightarrow>
             (let bids = take ORDER_BOOK_DEPTH all_bids;
                  asks = take ORDER_BOOK_DEPTH all_asks
              in case sum_sizes pyfloat 0 bids of
                   Inl e \<Rightarrow> Inl e
                 | Inr bid_depth \<Rightarrow>
                 (case sum_sizes pyfloat 0 asks of
                   Inl e \<Rightarrow> Inl e
                 | Inr ask_depth \<Rightarrow>
                 (case best_price pyfloat asks of
                   Inl e \<Rightarrow> Inl e
                 | Inr ask0 \<Rightarrow>
                 (case best_price pyfloat bids of
                   Inl e \<Rightarrow> Inl e
                 | Inr bid0 \<Rightarrow>
                     Inr (Some bid_depth, Some ask_depth, Some (ask0 - bid0)))))))))"

text \<open>
  \<^verbatim>\<open>1 + price_impact\<close>, \<^verbatim>\<open>1 / (...)\<close> and \<^verbatim>\<open>liquidity_score * 100\<close> are float
  operations. For a binary64 \<open>price_impact\<close> the sum is 0 or at least \<open>2 ^ -53\<close> in
  magnitude, so that none of the three overflows.
\<close>

definition evaluate_liquidity :: "('v \<Rightarrow> py_error + real) \<Rightarrow> 'v order_book \<Rightarrow> py_error + real" where
  "evaluate_liquidity pyfloat order_book =
     (case ob_estimatedPriceImpact order_book of
        None \<Rightarrow> Inr 0
      | Some raw \<Rightarrow>
          (case pyfloat raw of
             Inl e \<Rightarrow> Inl e
           | Inr price_impact \<Rightarrow>
               (let denominator = round_binary64 (1 + price_impact)
                in if denominator = 0 then Inl ZeroDivisionError
                   else let liquidity_score = round_binary64 (1 / denominator)
                        in Inr (py_min (round_binary64 (liquidity_score * 100))
                                       MAX_LIQUIDITY_SCORE))))"

subsection \<open>The loop of \<^verbatim>\<open>monitor_token\<close>\<close>

text \<open>\<^verbatim>\<open>price_history.append(current_price)\<close>, then \<^verbatim>\<open>pop(0)\<close> when the list is too long.\<close>

definition update_history :: "real list \<Rightarrow> real \<Rightarrow> real list" where
  "update_history price_history current_price =
     (let appended = price_history @ [current_price]
      in if length appended > PRICE_HISTORY_LENGTH then tl appended else appended)"

text \<open>\<^verbatim>\<open>all(price_history[i] < price_history[i+1] for i in range(len(price_history)-1))\<close>\<close>

definition all_increasing :: "real list \<Rightarrow> bool" where
  "all_increasing price_history =
     list_all (\<lambda>i. price_history ! i < price_history ! (i + 1)) [0..<length price_history - 1]"

text \<open>
  The two outcomes of the test of the window: \<open>TrendSignal p\<close> when the condition
  \<^verbatim>\<open>price_increase > PRICE_INCREASE_THRESHOLD and all(...)\<close> holds with
  \<^verbatim>\<open>price_increase = p\<close>, \<open>NoSignal\<close> when it does not or the window is not full.
\<close>

datatype trend_decision = NoSignal | TrendSignal float64

text \<open>
  Dividing a float by \<open>0.0\<close> raises \<^verbatim>\<open>ZeroDivisionError\<close>. The window is read at
  \<^verbatim>\<open>[0]\<close> and \<^verbatim>\<open>[-1]\<close> only when its length is \<open>PRICE_HISTORY_LENGTH\<close>; an
  empty window there raises \<^verbatim>\<open>IndexError\<close>. \<open>percent_increase\<close> is the value of
  \<^verbatim>\<open>(price_history[-1] - price_history[0]) / price_history[0]\<close> for a first price
  that is not zero: the difference and the quotient are binary64 operations, and
  either can overflow to an infinity.
\<close>

definition percent_increase :: "real list \<Rightarrow> float64" where
  "percent_increase price_history =
     float_div (float_sub (last price_history) (hd price_history)) (hd price_history)"

definition price_trend :: "real list \<Rightarrow> py_error + trend_decision" where
  "price_trend price_history =
     (if length price_history = PRICE_HISTORY_LENGTH then
        (if price_history = [] then Inl IndexError
         else if hd price_history = 0 then Inl ZeroDivisionError
         else let price_increase = percent_increase price_history
              in if float_greater price_increase PRICE_INCREASE_THRESHOLD
                    \<and> all_increasing price_history
                 then Inr (TrendSignal price_increase)
                 else Inr NoSignal)
      else Inr NoSignal)"

datatype event =
    LogFetchFailed
  | SendEmail float64 real real
  | LogInfo real real
  | Sleep nat

text \<open>
  One pass through the body of \<^verbatim>\<open>while True\<close> from the test \<^verbatim>\<open>if not order_book\<close>
  on, given the value that \<^verbatim>\<open>await fetch_order_book_eth(...)\<close> returned: the new
  history and the events of the pass, or the exception that leaves the loop. \<open>SendEmail price_increase current_price liquidity_score\<close> is the call of
  \<^verbatim>\<open>send_email\<close>, which catches every exception of its own.
\<close>

definition monitor_cycle ::
  "('v \<Rightarrow> py_error + real) \<Rightarrow> real list \<Rightarrow> 'v order_book option
     \<Rightarrow> py_error + (real list \<times> event list)" where
  "monitor_cycle pyfloat price_history order_book =
     (case order_book of
        None \<Rightarrow> Inr (price_history, [LogFetchFailed, Sleep CHECK_INTERVAL])
      | Some ob \<Rightarrow>
          (if \<not> truthy order_book
           then Inr (price_history, [LogFetchFailed, Sleep CHECK_INTERVAL])
           else case ob_price ob of
             None \<Rightarrow> Inl KeyError
           | Some current_price \<Rightarrow>
           (case evaluate_liquidity pyfloat ob of
             Inl e \<Rightarrow> Inl e
           | Inr liquidity_score \<Rightarrow>
             (let history = update_history price_history current_price
              in case price_trend history of
                   Inl e \<Rightarrow> Inl e
                 | Inr NoSignal \<Rightarrow>
                     Inr (history,
                          [LogInfo current_price liquidity_score, Sleep CHECK_INTERVAL])
                 | Inr (TrendSignal price_increase) \<Rightarrow>
                     Inr (history,
                          (if liquidity_score \<ge> LIQUIDITY_THRESHOLD
                           then [SendEmail price_increase current_price liquidity_score]
                           else [])
                          @ [LogInfo current_price liquidity_score, Sleep CHECK_INTERVAL])))))"

text \<open>
  The loop never ends by itself. \<open>monitor_token\<close> runs one pass for each value of a
  list of values that the fetch returned, from a given history (the code starts from
  \<open>[]\<close>), and stops at the first exception, as the coroutine does. \<open>monitor_loop\<close> below
  is the same loop with the fetch inside.
\<close>

fun monitor_token ::
  "('v \<Rightarrow> py_error + real) \<Rightarrow> real list \<Rightarrow> 'v order_book option list
     \<Rightarrow> py_error + (real list \<times> event list)" where
  "monitor_token pyfloat price_history [] = Inr (price_history, [])"
| "monitor_token pyfloat price_history (order_book # later) =
     (case monitor_cycle pyfloat price_history order_book of
        Inl e \<Rightarrow> Inl e
      | Inr (history, events) \<Rightarrow>
          (case monitor_token pyfloat history later of
             Inl e \<Rightarrow> Inl e
           | Inr (final, later_events) \<Rightarrow> Inr (final, events @ later_events)))"

subsection \<open>\<^verbatim>\<open>fetch_order_book_eth\<close> and the loop with the fetch inside\<close>

text \<open>
  What the request gives: an \<^verbatim>\<open>aiohttp.ClientError\<close> raised by the request or by
  reading the body, or a response with its status and the JSON object of its body,
  read under three keys (a field is \<open>None\<close> when the key is missing).
\<close>

record 'v quote_reply =
  qr_sellAmount :: "'v option"
  qr_buyAmount :: "'v option"
  qr_estimatedPriceImpact :: "'v option"

datatype 'v http_outcome = RaisesClientError | Response nat "'v quote_reply"

text \<open>
  The statements of the \<^verbatim>\<open>try\<close> block after the test of the status. A missing key
  raises \<^verbatim>\<open>KeyError\<close>; \<^verbatim>\<open>float\<close> raises what \<open>pyfloat\<close> says; the division by a
  \<^verbatim>\<open>sell_amount\<close> of \<open>0.0\<close> raises \<^verbatim>\<open>ZeroDivisionError\<close>. \<open>pystr\<close> is \<^verbatim>\<open>str\<close> on a
  float and \<open>zero\<close> the string \<^verbatim>\<open>"0"\<close>, as raw values. \<^verbatim>\<open>1e18\<close> and \<^verbatim>\<open>1e6\<close> are
  binary64 values. A price of magnitude \<open>2 ^ 1024\<close> or more is \<^verbatim>\<open>inf\<close> in the code and
  outside the model, as every infinite price is.
\<close>

definition parse_quote ::
  "('v \<Rightarrow> py_error + real) \<Rightarrow> (real \<Rightarrow> 'v) \<Rightarrow> 'v \<Rightarrow> 'v quote_reply
     \<Rightarrow> py_error + 'v order_book option" where
  "parse_quote pyfloat pystr zero data =
     (case qr_sellAmount data of
        None \<Rightarrow> Inl KeyError
      | Some raw_sell \<Rightarrow>
      (case pyfloat raw_sell of
        Inl e \<Rightarrow> Inl e
      | Inr sell \<Rightarrow>
      (case qr_buyAmount data of
        None \<Rightarrow> Inl KeyError
      | Some raw_buy \<Rightarrow>
      (case pyfloat raw_buy of
        Inl e \<Rightarrow> Inl e
      | Inr buy \<Rightarrow>
        (let sell_amount = round_binary64 (sell / 10 ^ 18);
             buy_amount = round_binary64 (buy / 10 ^ 6)
         in if sell_amount = 0 then Inl ZeroDivisionError
            else Inr (Some
              \<lparr>ob_bids = Some [(zero, pystr sell_amount)],
               ob_asks = Some [(zero, pystr buy_amount)],
               ob_price = Some (round_binary64 (buy_amount / sell_amount)),
               ob_estimatedPriceImpact =
                 Some (case qr_estimatedPriceImpact data of None \<Rightarrow> zero | Some raw \<Rightarrow> raw),
               ob_other_keys = False\<rparr>))))))"

text \<open>
  The two handlers: \<^verbatim>\<open>except aiohttp.ClientError\<close> and \<^verbatim>\<open>except KeyError\<close> log and
  return \<^verbatim>\<open>None\<close>. Every other exception of the block leaves the function.
\<close>

definition fetch_order_book_eth ::
  "('v \<Rightarrow> py_error + real) \<Rightarrow> (real \<Rightarrow> 'v) \<Rightarrow> 'v \<Rightarrow> 'v http_outcome
     \<Rightarrow> py_error + 'v order_book option" where
  "fetch_order_book_eth pyfloat pystr zero outcome =
     (case outcome of
        RaisesClientError \<Rightarrow> Inr None
      | Response status data \<Rightarrow>
          (if status \<noteq> 200 then Inr None
           else case parse_quote pyfloat pystr zero data of
                  Inl KeyError \<Rightarrow> Inr None
                | Inl e \<Rightarrow> Inl e
                | Inr order_book \<Rightarrow> Inr order_book))"

text \<open>
  One pass through the body of \<^verbatim>\<open>while True\<close> from its first line: the fetch is
  awaited with no handler around it, so an exception of the fetch leaves the loop.
\<close>

definition monitor_iteration ::
  "('v \<Rightarrow> py_error + real) \<Rightarrow> (real \<Rightarrow> 'v) \<Rightarrow> 'v \<Rightarrow> real list \<Rightarrow> 'v http_outcome
     \<Rightarrow> py_error + (real list \<times> event list)" where
  "monitor_iteration pyfloat pystr zero price_history outcome =
     (case fetch_order_book_eth pyfloat pystr zero outcome of
        Inl e \<Rightarrow> Inl e
      | Inr order_book \<Rightarrow> monitor_cycle pyfloat price_history order_book)"

fun monitor_loop ::
  "('v \<Rightarrow> py_error + real) \<Rightarrow> (real \<Rightarrow> 'v) \<Rightarrow> 'v \<Rightarrow> real list \<Rightarrow> 'v http_outcome list
     \<Rightarrow> py_error + (real list \<times> event list)" where
  "monitor_loop pyfloat pystr zero price_history [] = Inr (price_history, [])"
| "monitor_loop pyfloat pystr zero price_history (outcome # later) =
     (case monitor_iteration pyfloat pystr zero price_history outcome of
        Inl e \<Rightarrow> Inl e
      | Inr (history, events) \<Rightarrow>
          (case monitor_loop pyfloat pystr zero history later of
             Inl e \<Rightarrow> Inl e
           | Inr (final, later_events) \<Rightarrow> Inr (final, events @ later_events)))"

subsection \<open>The end of \<^verbatim>\<open>main\<close> in \<^verbatim>\<open>token_depth.py\<close>\<close>

datatype advice = WorthBuying | NotRecommended

definition main_advice :: "real \<Rightarrow> advice" where
  "main_advice combined_score = (if combined_score > 60 then WorthBuying else NotRecommended)"

record report =
  rep_combined :: real
  rep_liquidity :: real
  rep_risk :: real
  rep_price :: real
  rep_advice :: advice

text \<open>
  From \<^verbatim>\<open>if not order_book\<close> to the end: \<open>Inr None\<close> is the early return after a
  failed fetch, \<open>Inr (Some r)\<close> what is printed.
\<close>

definition main_report ::
  "('v \<Rightarrow> py_error + real) \<Rightarrow> 'v order_book option \<Rightarrow> py_error + report option" where
  "main_report pyfloat order_book =
     (case order_book of
        None \<Rightarrow> Inr None
      | Some ob \<Rightarrow>
          (if \<not> truthy order_book then Inr None
           else case evaluate_liquidity pyfloat ob of
             Inl e \<Rightarrow> Inl e
           | Inr liquidity_score \<Rightarrow>
           (case ob_price ob of
             None \<Rightarrow> Inl KeyError
           | Some price \<Rightarrow>
           (case assess_risk price of
             Inl e \<Rightarrow> Inl e
           | Inr risk_assessment \<Rightarrow>
             (let combined_score = standardize_score liquidity_score risk_assessment
              in Inr (Some \<lparr>rep_combined = combined_score, rep_liquidity = liquidity_score,
                            rep_risk = risk_assessment, rep_price = price,
                            rep_advice = main_advice combined_score\<rparr>))))))"

text \<open>
  The prices that a list of fetch results delivers to the history, in order: a failed
  fetch delivers none.
\<close>

fun observed_prices :: "'v order_book option list \<Rightarrow> real list" where
  "observed_prices [] = []"
| "observed_prices (None # later) = observed_prices later"
| "observed_prices (Some ob # later) =
     (case ob_price ob of
        None \<Rightarrow> observed_prices later
      | Some p \<Rightarrow> p # observed_prices later)"

text \<open>
  An order book of the shape \<^verbatim>\<open>fetch_order_book_eth\<close> builds for one unit sold: one
  bid level, one ask level, the price and the price impact, with raw fields that are
  numbers already (\<open>pyfloat = Inr\<close>). It is the sample input of the examples below.
\<close>

definition quote :: "real \<Rightarrow> real \<Rightarrow> real order_book" where
  "quote p impact =
     \<lparr>ob_bids = Some [(0, 1)], ob_asks = Some [(0, p)], ob_price = Some p,
      ob_estimatedPriceImpact = Some impact, ob_other_keys = False\<rparr>"

subsection \<open>Lemmas\<close>

lemma assess_risk_value:
  "assess_risk p = Inr (if p < 1 / 100 then 50 else if p < 1 then 25 else 25 / 2)"
  by (simp add: assess_risk_def assess_risk_chain_def MAX_RISK_SCORE_def)

lemma standardize_score_unfold:
  "standardize_score l r = py_max 0 (py_min 100 ((l / 100) * 60 - (r / 50) * 40))"
  by (simp add: standardize_score_def MAX_LIQUIDITY_SCORE_def MAX_RISK_SCORE_def Let_def)

lemma all_increasing_iff:
  "all_increasing h \<longleftrightarrow> (\<forall>i. i + 1 < length h \<longrightarrow> h ! i < h ! (i + 1))"
  by (auto simp: all_increasing_def list_all_iff)

lemma update_history_eq:
  "update_history h p = (if length h < PRICE_HISTORY_LENGTH then h @ [p] else tl (h @ [p]))"
  by (simp add: update_history_def Let_def)

lemma update_history_length_le:
  "length h \<le> PRICE_HISTORY_LENGTH \<Longrightarrow> length (update_history h p) \<le> PRICE_HISTORY_LENGTH"
  by (simp add: update_history_eq)

lemma update_history_full:
  "length h = PRICE_HISTORY_LENGTH \<Longrightarrow> update_history h p = tl h @ [p]"
  by (cases h) (simp_all add: update_history_eq PRICE_HISTORY_LENGTH_def)

lemma foldl_update_history:
  "length h \<le> PRICE_HISTORY_LENGTH \<Longrightarrow>
     foldl update_history h ps = drop (length h + length ps - PRICE_HISTORY_LENGTH) (h @ ps)"
proof (induction ps arbitrary: h)
  case Nil
  then show ?case by simp
next
  case (Cons p ps)
  show ?case
  proof (cases "length h < PRICE_HISTORY_LENGTH")
    case True
    then have u: "update_history h p = h @ [p]" by (simp add: update_history_eq)
    from True have "length (h @ [p]) \<le> PRICE_HISTORY_LENGTH" by simp
    from Cons.IH [OF this] show ?thesis by (simp add: u)
  next
    case False
    with Cons.prems have full: "length h = PRICE_HISTORY_LENGTH" by simp
    then obtain x t where h: "h = x # t" by (cases h) (auto simp: PRICE_HISTORY_LENGTH_def)
    have n: "PRICE_HISTORY_LENGTH = Suc (length t)" using full h by simp
    have u: "update_history (x # t) p = t @ [p]" using update_history_full [OF full] h by simp
    have "length (t @ [p]) \<le> PRICE_HISTORY_LENGTH" using n by simp
    from Cons.IH [OF this] have "foldl update_history (t @ [p]) ps = drop (length ps) (t @ p # ps)"
      by (simp add: n)
    then show ?thesis by (simp add: h u n)
  qed
qed

lemma truthy_price: "ob_price ob = Some p \<Longrightarrow> truthy (Some ob)"
  by (simp add: truthy_def dict_empty_def)

lemma monitor_cycle_failed:
  "\<not> truthy fetched \<Longrightarrow>
     monitor_cycle pyfloat h fetched = Inr (h, [LogFetchFailed, Sleep CHECK_INTERVAL])"
  by (cases fetched) (simp_all add: monitor_cycle_def)

lemma monitor_cycle_history:
  "monitor_cycle pyfloat h fetched = Inr (h', ev) \<Longrightarrow>
     h' = foldl update_history h (observed_prices [fetched])"
  by (cases fetched)
     (auto simp: monitor_cycle_def Let_def truthy_def dict_empty_def
           split: if_splits option.splits sum.splits trend_decision.splits)

lemma monitor_token_history:
  "monitor_token pyfloat h fetched = Inr (h', ev) \<Longrightarrow>
     h' = foldl update_history h (observed_prices fetched)"
proof (induction fetched arbitrary: h h' ev)
  case Nil
  then show ?case by simp
next
  case (Cons x xs)
  from Cons.prems obtain h1 ev1 ev2 where
    c: "monitor_cycle pyfloat h x = Inr (h1, ev1)" and
    r: "monitor_token pyfloat h1 xs = Inr (h', ev2)"
    by (auto split: sum.splits prod.splits)
  have "h1 = foldl update_history h (observed_prices [x])" by (rule monitor_cycle_history [OF c])
  moreover have "h' = foldl update_history h1 (observed_prices xs)" by (rule Cons.IH [OF r])
  moreover have "observed_prices (x # xs) = observed_prices [x] @ observed_prices xs"
    by (cases x) (auto split: option.splits)
  ultimately show ?case by simp
qed

text \<open>
  \<open>round_binary64\<close> on a number whose exponent is known, and the instances that
  evaluate it on the numbers of the examples below.
\<close>

lemma binary64_exponent_eq:
  assumes "2 powr of_int e \<le> \<bar>x\<bar>" and "\<bar>x\<bar> < 2 powr of_int (e + 1)" and "- 1022 \<le> e"
  shows "binary64_exponent x = e"
proof -
  have pos: "0 < \<bar>x\<bar>" using assms(1) by (smt (verit) powr_gt_zero)
  have "of_int e \<le> log 2 \<bar>x\<bar>" using assms(1) pos by (simp add: le_log_iff)
  moreover have "log 2 \<bar>x\<bar> < of_int (e + 1)" using assms(2) pos by (simp add: log_less_iff)
  ultimately have "\<lfloor>log 2 \<bar>x\<bar>\<rfloor> = e" by (simp add: floor_eq_iff)
  with assms(3) show ?thesis by (simp add: binary64_exponent_def)
qed

lemma round_binary64_at:
  assumes "2 powr of_int e \<le> \<bar>x\<bar>" and "\<bar>x\<bar> < 2 powr of_int (e + 1)" and "- 1022 \<le> e"
  shows "round_binary64 x
    = of_int (round_half_even (x / 2 powr of_int (e - 52))) * 2 powr of_int (e - 52)"
proof -
  have "x \<noteq> 0" using assms(1) by (smt (verit) powr_gt_zero)
  then show ?thesis
    by (simp add: round_binary64_def binary64_exponent_eq [OF assms] Let_def)
qed

lemmas round_binary64_eval =
  round_binary64_at [of "- 4"] round_binary64_at [of "- 3"] round_binary64_at [of "- 2"]
  round_binary64_at [of "- 1"] round_binary64_at [of 0] round_binary64_at [of 1]
  round_binary64_at [of 2] round_binary64_at [of 3] round_binary64_at [of 4]
  round_binary64_at [of 5] round_binary64_at [of 6] round_binary64_at [of 7]

lemmas float_eval =
  round_binary64_eval round_half_even_def powr_minus_divide float_sub_def float_div_def
  float_greater_def overflow_to_inf_def PRICE_INCREASE_THRESHOLD_def percent_increase_def

lemma round_half_even_ge_floor: "\<lfloor>x\<rfloor> \<le> round_half_even x"
  by (simp add: round_half_even_def Let_def)

lemma round_binary64_nonneg: "0 \<le> x \<Longrightarrow> 0 \<le> round_binary64 x"
proof -
  assume x: "0 \<le> x"
  show ?thesis
  proof (cases "x = 0")
    case True
    then show ?thesis by (simp add: round_binary64_def)
  next
    case False
    let ?u = "(2::real) powr of_int (binary64_exponent x - 52)"
    have u: "0 < ?u" by simp
    with x have "0 \<le> x / ?u" by simp
    then have "0 \<le> \<lfloor>x / ?u\<rfloor>" by simp
    with round_half_even_ge_floor [of "x / ?u"] have "0 \<le> round_half_even (x / ?u)" by linarith
    with u False show ?thesis by (simp add: round_binary64_def Let_def)
  qed
qed

lemma round_binary64_pos: "1 \<le> x \<Longrightarrow> 0 < round_binary64 x"
proof -
  assume x: "1 \<le> x"
  then have x0: "0 < x" by simp
  let ?e = "\<lfloor>log 2 x\<rfloor>"
  have "0 \<le> log 2 x" using x by simp
  then have e0: "0 \<le> ?e" by simp
  have ax: "\<bar>x\<bar> = x" using x0 by simp
  have ex: "binary64_exponent x = ?e" unfolding binary64_exponent_def ax using e0 by linarith
  let ?u = "(2::real) powr of_int (?e - 52)"
  have u: "0 < ?u" by simp
  have "2 powr of_int ?e \<le> 2 powr log 2 x" by (rule powr_mono) simp_all
  then have "2 powr of_int ?e \<le> x" using x0 by simp
  moreover have "2 powr of_int ?e = 2 powr 52 * ?u"
    by (simp add: powr_diff)
  ultimately have "2 powr 52 * ?u \<le> x" by simp
  then have "2 powr 52 \<le> x / ?u" using u by (simp add: pos_le_divide_eq)
  moreover have "(1::real) \<le> 2 powr 52" by simp
  ultimately have "1 \<le> x / ?u" by linarith
  then have "1 \<le> \<lfloor>x / ?u\<rfloor>" by linarith
  with round_half_even_ge_floor [of "x / ?u"] have "1 \<le> round_half_even (x / ?u)" by linarith
  then have "0 < of_int (round_half_even (x / ?u)) * ?u" using u by simp
  with x0 ex show ?thesis by (simp add: round_binary64_def Let_def)
qed

lemma sample_run: "monitor_token Inr [] (map (\<lambda>p. Some (quote p 0)) [1, 2, 3, 4, 5, 6]) = 
  Inr ([2, 3, 4, 5, 6],
       [LogInfo 1 100, Sleep 300, LogInfo 2 100, Sleep 300, LogInfo 3 100, Sleep 300,
        LogInfo 4 100, Sleep 300, SendEmail (Finite 4) 5 100, LogInfo 5 100, Sleep 300,
        SendEmail (Finite 2) 6 100, LogInfo 6 100, Sleep 300])"
  by (simp add: quote_def monitor_cycle_def truthy_def dict_empty_def evaluate_liquidity_def
      update_history_def price_trend_def PRICE_HISTORY_LENGTH_def Let_def py_min_def
      MAX_LIQUIDITY_SCORE_def CHECK_INTERVAL_def all_increasing_def
      LIQUIDITY_THRESHOLD_def float_eval)

lemma main_report_fields:
  "main_report pyfloat order_book = Inr (Some rep) \<Longrightarrow>
     rep_advice rep = main_advice (standardize_score (rep_liquidity rep) (rep_risk rep))"
  by (cases order_book)
     (auto simp: main_report_def Let_def split: if_splits option.splits sum.splits)

lemma fetch_none_skips:
  "fetch_order_book_eth pyfloat pystr zero outcome = Inr None \<Longrightarrow>
     monitor_iteration pyfloat pystr zero h outcome
       = Inr (h, [LogFetchFailed, Sleep CHECK_INTERVAL])"
  by (simp add: monitor_iteration_def monitor_cycle_def)

lemma fetch_raises_leaves:
  "fetch_order_book_eth pyfloat pystr zero outcome = Inl e \<Longrightarrow>
     monitor_iteration pyfloat pystr zero h outcome = Inl e
     \<and> monitor_loop pyfloat pystr zero h (outcome # later) = Inl e"
  by (simp add: monitor_iteration_def)

lemma monitor_loop_returned:
  "list_all (\<lambda>(outcome, order_book).
       fetch_order_book_eth pyfloat pystr zero outcome = Inr order_book) (zip outcomes fetched)
   \<Longrightarrow> length outcomes = length fetched
   \<Longrightarrow> monitor_loop pyfloat pystr zero h outcomes = monitor_token pyfloat h fetched"
proof (induction outcomes arbitrary: h fetched)
  case Nil
  then show ?case by simp
next
  case (Cons o1 os)
  then obtain f1 fs where f: "fetched = f1 # fs" by (cases fetched) auto
  with Cons.prems have 1: "fetch_order_book_eth pyfloat pystr zero o1 = Inr f1"
    and 2: "list_all (\<lambda>(outcome, order_book).
       fetch_order_book_eth pyfloat pystr zero outcome = Inr order_book) (zip os fs)"
    and 3: "length os = length fs" by auto
  from Cons.IH [OF 2 3] 1 f show ?case
    by (simp add: monitor_iteration_def split: sum.splits prod.splits)
qed

lemma fetch_builds_quote:
  "fetch_order_book_eth Inr (\<lambda>x. x) 0
     (Response 200 \<lparr>qr_sellAmount = Some (10 ^ 18), qr_buyAmount = Some (5 * 10 ^ 6),
                    qr_estimatedPriceImpact = None\<rparr>)
   = Inr (Some (quote 5 0))"
  using round_binary64_at [of 0 1] round_binary64_at [of 2 5]
  by (simp add: fetch_order_book_eth_def parse_quote_def quote_def round_half_even_def
      powr_minus_divide)

section \<open>The claims\<close>

subsection \<open>Trend detector\<close>

text \<open>
  Claim C1, as the code has it. On a full window (length \<open>PRICE_HISTORY_LENGTH\<close>) the
  test of the window yields \<open>TrendSignal p\<close> exactly when the first price is not zero,
  every consecutive pair of prices increases strictly and the percent increase (last
  minus first, divided by first, both operations in binary64) is strictly greater than
  \<open>PRICE_INCREASE_THRESHOLD\<close>, the binary64 value of \<^verbatim>\<open>0.1\<close>; \<open>p\<close> is then that percent
  increase. With a first price that is not zero it yields \<open>NoSignal\<close> exactly when
  that condition fails. With window 5 and threshold 0.10 the prices 1.0, 1.02, 1.05,
  1.09, 1.15 yield \<open>TrendSignal\<close> with the percent increase 337769972052787 / 2^51,
  which Python prints as 0.1499999999999999 and which is not the float 0.15; the
  non-monotonic 1.0, 1.2, 1.1, 1.3, 1.4 yield \<open>NoSignal\<close> although their percent
  increase is above the threshold.
\<close>

theorem trend_signal_iff:
  "length h = PRICE_HISTORY_LENGTH \<Longrightarrow>
     (price_trend h = Inr (TrendSignal p) \<longleftrightarrow>
        hd h \<noteq> 0 \<and> (\<forall>i. i + 1 < length h \<longrightarrow> h ! i < h ! (i + 1))
        \<and> float_greater (percent_increase h) PRICE_INCREASE_THRESHOLD
        \<and> p = percent_increase h)
     \<and> (hd h \<noteq> 0 \<longrightarrow>
          (price_trend h = Inr NoSignal \<longleftrightarrow>
             \<not> ((\<forall>i. i + 1 < length h \<longrightarrow> h ! i < h ! (i + 1))
                \<and> float_greater (percent_increase h) PRICE_INCREASE_THRESHOLD)))
     \<and> price_trend (map round_binary64 [1, 102 / 100, 105 / 100, 109 / 100, 115 / 100])
           = Inr (TrendSignal (Finite (337769972052787 / 2 ^ 51)))
     \<and> price_trend (map round_binary64 [1, 12 / 10, 11 / 10, 13 / 10, 14 / 10]) = Inr NoSignal
     \<and> float_greater
           (percent_increase (map round_binary64 [1, 12 / 10, 11 / 10, 13 / 10, 14 / 10]))
           PRICE_INCREASE_THRESHOLD"
proof -
  assume full: "length h = PRICE_HISTORY_LENGTH"
  then have ne: "h \<noteq> []" by (auto simp: PRICE_HISTORY_LENGTH_def)
  have a: "price_trend h = Inr (TrendSignal p) \<longleftrightarrow>
        hd h \<noteq> 0 \<and> (\<forall>i. i + 1 < length h \<longrightarrow> h ! i < h ! (i + 1))
        \<and> float_greater (percent_increase h) PRICE_INCREASE_THRESHOLD
        \<and> p = percent_increase h"
    using full ne by (auto simp: price_trend_def Let_def all_increasing_iff)
  have b: "hd h \<noteq> 0 \<longrightarrow>
          (price_trend h = Inr NoSignal \<longleftrightarrow>
             \<not> ((\<forall>i. i + 1 < length h \<longrightarrow> h ! i < h ! (i + 1))
                \<and> float_greater (percent_increase h) PRICE_INCREASE_THRESHOLD))"
    using full ne by (auto simp: price_trend_def Let_def all_increasing_iff)
  have c: "price_trend (map round_binary64 [1, 102 / 100, 105 / 100, 109 / 100, 115 / 100])
           = Inr (TrendSignal (Finite (337769972052787 / 2 ^ 51)))"
    by (simp add: price_trend_def PRICE_HISTORY_LENGTH_def all_increasing_def float_eval)
  have d: "price_trend (map round_binary64 [1, 12 / 10, 11 / 10, 13 / 10, 14 / 10]) = Inr NoSignal"
    by (simp add: price_trend_def PRICE_HISTORY_LENGTH_def all_increasing_def float_eval)
  have e: "float_greater
           (percent_increase (map round_binary64 [1, 12 / 10, 11 / 10, 13 / 10, 14 / 10]))
           PRICE_INCREASE_THRESHOLD"
    by (simp add: float_eval)
  from a b c d e show ?thesis by blast
qed

theorem trend_signal_iff_witness:
  "length [100, 101, 103, 106, 112 :: real] = PRICE_HISTORY_LENGTH
   \<and> price_trend [100, 101, 103, 106, 112] = Inr (TrendSignal (Finite (round_binary64 (12 / 100))))
   \<and> price_trend [100, 101, 103, 106, 110] = Inr NoSignal
   \<and> price_trend (map round_binary64 [1, 102 / 100, 105 / 100, 108 / 100, 11 / 10])
       = Inr (TrendSignal (Finite (225179981368525 / 2 ^ 51)))
   \<and> price_trend [1 / 2 ^ 1040, 1 / 2 ^ 1039, 1 / 2 ^ 1038, 1 / 2 ^ 1037, 1]
       = Inr (TrendSignal PosInf)"
proof -
  let ?h1 = "[100, 101, 103, 106, 112 :: real]"
  let ?h2 = "[100, 101, 103, 106, 110 :: real]"
  let ?h3 = "map round_binary64 [1, 102 / 100, 105 / 100, 108 / 100, 11 / 10]"
  let ?h4 = "[1 / 2 ^ 1040, 1 / 2 ^ 1039, 1 / 2 ^ 1038, 1 / 2 ^ 1037, 1 :: real]"
  have l1: "length ?h1 = PRICE_HISTORY_LENGTH" by (simp add: PRICE_HISTORY_LENGTH_def)
  have l2: "length ?h2 = PRICE_HISTORY_LENGTH" by (simp add: PRICE_HISTORY_LENGTH_def)
  have l3: "length ?h3 = PRICE_HISTORY_LENGTH" by (simp add: PRICE_HISTORY_LENGTH_def)
  have l4: "length ?h4 = PRICE_HISTORY_LENGTH" by (simp add: PRICE_HISTORY_LENGTH_def)
  have i1: "\<forall>i. i + 1 < length ?h1 \<longrightarrow> ?h1 ! i < ?h1 ! (i + 1)"
    using all_increasing_iff [of ?h1] by (simp add: all_increasing_def)
  have i3: "\<forall>i. i + 1 < length ?h3 \<longrightarrow> ?h3 ! i < ?h3 ! (i + 1)"
    using all_increasing_iff [of ?h3] by (simp add: all_increasing_def float_eval)
  have i4: "\<forall>i. i + 1 < length ?h4 \<longrightarrow> ?h4 ! i < ?h4 ! (i + 1)"
    using all_increasing_iff [of ?h4] by (simp add: all_increasing_def)
  have p1: "percent_increase ?h1 = Finite (round_binary64 (12 / 100))"
    by (simp add: float_eval)
  have p2: "percent_increase ?h2 = Finite PRICE_INCREASE_THRESHOLD"
    by (simp add: float_eval)
  have p3: "percent_increase ?h3 = Finite (225179981368525 / 2 ^ 51)"
    by (simp add: float_eval)
  have p4: "percent_increase ?h4 = PosInf"
    using round_binary64_at [of "- 1" "1 - 1 / 2 ^ 1040"] round_binary64_at [of 1040 "2 ^ 1040"]
    by (simp add: round_half_even_def powr_minus_divide float_sub_def float_div_def
      overflow_to_inf_def percent_increase_def)
  have g1: "float_greater (percent_increase ?h1) PRICE_INCREASE_THRESHOLD"
    by (simp add: float_eval)
  have g3: "float_greater (percent_increase ?h3) PRICE_INCREASE_THRESHOLD"
    by (simp add: float_eval)
  have s1: "price_trend ?h1 = Inr (TrendSignal (Finite (round_binary64 (12 / 100))))"
    using trend_signal_iff [OF l1, of "Finite (round_binary64 (12 / 100))"] i1 g1 p1 by simp
  have s2: "price_trend ?h2 = Inr NoSignal"
    using trend_signal_iff [OF l2, of PosInf] p2 by (simp add: float_greater_def)
  have s3: "price_trend ?h3 = Inr (TrendSignal (Finite (225179981368525 / 2 ^ 51)))"
    using trend_signal_iff [OF l3, of "Finite (225179981368525 / 2 ^ 51)"] i3 g3 p3
    by (simp add: float_eval)
  have s4: "price_trend ?h4 = Inr (TrendSignal PosInf)"
    using trend_signal_iff [OF l4, of PosInf] i4 p4 by (simp add: float_greater_def)
  from l1 s1 s2 s3 s4 show ?thesis by simp
qed

text \<open>
  The claim as written gives the percent increase of the first example as 0.15: the
  code computes another float.
\<close>

theorem trend_percent_counterexample:
  "price_trend (map round_binary64 [1, 102 / 100, 105 / 100, 109 / 100, 115 / 100])
     = Inr (TrendSignal (Finite (337769972052787 / 2 ^ 51)))
   \<and> (337769972052787 / 2 ^ 51 :: real) \<noteq> round_binary64 (15 / 100)
   \<and> price_trend (map round_binary64 [1, 102 / 100, 105 / 100, 109 / 100, 115 / 100])
     \<noteq> Inr (TrendSignal (Finite (round_binary64 (15 / 100))))"
  by (simp add: price_trend_def PRICE_HISTORY_LENGTH_def all_increasing_def float_eval)

text \<open>
  Claim C2, as the code has it. When the window is full after the new price is
  appended and its oldest entry is 0, the division by that entry raises
  \<^verbatim>\<open>ZeroDivisionError\<close>: the test of the window does not yield \<open>NoSignal\<close>, and the
  pass through the loop ends with the exception. No guard stands before the division.
\<close>

theorem zero_first_price_raises:
  "ob_price ob = Some current_price \<Longrightarrow>
   evaluate_liquidity pyfloat ob = Inr liquidity_score \<Longrightarrow>
   length (update_history h current_price) = PRICE_HISTORY_LENGTH \<Longrightarrow>
   hd (update_history h current_price) = 0 \<Longrightarrow>
     price_trend (update_history h current_price) = Inl ZeroDivisionError
     \<and> monitor_cycle pyfloat h (Some ob) = Inl ZeroDivisionError"
proof -
  assume p: "ob_price ob = Some current_price"
    and l: "evaluate_liquidity pyfloat ob = Inr liquidity_score"
    and full: "length (update_history h current_price) = PRICE_HISTORY_LENGTH"
    and z: "hd (update_history h current_price) = 0"
  from full have ne: "update_history h current_price \<noteq> []"
    by (auto simp: PRICE_HISTORY_LENGTH_def)
  have t: "price_trend (update_history h current_price) = Inl ZeroDivisionError"
    using full ne z by (simp add: price_trend_def)
  have "monitor_cycle pyfloat h (Some ob) = Inl ZeroDivisionError"
    using p l t truthy_price [OF p] by (simp add: monitor_cycle_def)
  with t show ?thesis by simp
qed

theorem zero_first_price_raises_witness:
  "ob_price \<lparr>ob_bids = None, ob_asks = None, ob_price = Some 4,
             ob_estimatedPriceImpact = Some (1 :: real), ob_other_keys = False\<rparr> = Some 4
   \<and> evaluate_liquidity Inr
        \<lparr>ob_bids = None, ob_asks = None, ob_price = Some 4,
         ob_estimatedPriceImpact = Some (1 :: real), ob_other_keys = False\<rparr> = Inr 50
   \<and> length (update_history [7, 0, 1, 2, 3] 4) = PRICE_HISTORY_LENGTH
   \<and> hd (update_history [7, 0, 1, 2, 3] 4) = 0
   \<and> monitor_cycle Inr [7, 0, 1, 2, 3]
        (Some \<lparr>ob_bids = None, ob_asks = None, ob_price = Some 4,
               ob_estimatedPriceImpact = Some (1 :: real), ob_other_keys = False\<rparr>)
      = Inl ZeroDivisionError"
proof -
  let ?ob = "\<lparr>ob_bids = None, ob_asks = None, ob_price = Some 4,
            ob_estimatedPriceImpact = Some (1 :: real), ob_other_keys = False\<rparr>"
  have p: "ob_price ?ob = Some 4" by simp
  have l: "evaluate_liquidity Inr ?ob = Inr 50"
    by (simp add: evaluate_liquidity_def py_min_def MAX_LIQUIDITY_SCORE_def float_eval)
  have f: "length (update_history [7, 0, 1, 2, 3] 4) = PRICE_HISTORY_LENGTH"
    by (simp add: update_history_def PRICE_HISTORY_LENGTH_def)
  have z: "hd (update_history [7, 0, 1, 2, 3] 4) = 0"
    by (simp add: update_history_def PRICE_HISTORY_LENGTH_def)
  from zero_first_price_raises [OF p l f z] p l f z show ?thesis by blast
qed

text \<open>
  The claim as written (the step returns \<open>NoSignal\<close> without raising) fails on the
  history 0, 1, 2, 3 and the new price 4.
\<close>

theorem zero_first_price_counterexample:
  "monitor_cycle Inr [0, 1, 2, 3]
     (Some \<lparr>ob_bids = Some [(0, 1)], ob_asks = Some [(0, 4)], ob_price = Some 4,
            ob_estimatedPriceImpact = Some (0 :: real), ob_other_keys = False\<rparr>)
   = Inl ZeroDivisionError"
  by (simp add: monitor_cycle_def truthy_def dict_empty_def evaluate_liquidity_def
      update_history_def price_trend_def PRICE_HISTORY_LENGTH_def Let_def py_min_def
      MAX_LIQUIDITY_SCORE_def float_eval)

text \<open>
  Claim C7. The history is a FIFO of capacity \<open>PRICE_HISTORY_LENGTH\<close>: a step from a
  history within the capacity stays within it; a step from a full history keeps the
  length, drops the oldest entry and appends the new price behind the others, in their
  order; and after any run of the loop from the empty history, the history is the last
  \<open>PRICE_HISTORY_LENGTH\<close> prices delivered, in the order of their delivery.
\<close>

theorem price_history_fifo:
  "(length h \<le> PRICE_HISTORY_LENGTH \<longrightarrow>
      length (update_history h p) \<le> PRICE_HISTORY_LENGTH)
   \<and> (length h = PRICE_HISTORY_LENGTH \<longrightarrow>
        update_history h p = tl h @ [p]
        \<and> length (update_history h p) = PRICE_HISTORY_LENGTH)
   \<and> (monitor_token pyfloat [] fetched = Inr (final, events) \<longrightarrow>
        length final \<le> PRICE_HISTORY_LENGTH
        \<and> final = drop (length (observed_prices fetched) - PRICE_HISTORY_LENGTH)
                    (observed_prices fetched))"
proof -
  have a: "length h \<le> PRICE_HISTORY_LENGTH \<longrightarrow>
      length (update_history h p) \<le> PRICE_HISTORY_LENGTH"
    by (simp add: update_history_length_le)
  have b: "length h = PRICE_HISTORY_LENGTH \<longrightarrow>
        update_history h p = tl h @ [p]
        \<and> length (update_history h p) = PRICE_HISTORY_LENGTH"
  proof
    assume full: "length h = PRICE_HISTORY_LENGTH"
    then obtain x t where h: "h = x # t" by (cases h) (auto simp: PRICE_HISTORY_LENGTH_def)
    from update_history_full [OF full] full h
    show "update_history h p = tl h @ [p]
        \<and> length (update_history h p) = PRICE_HISTORY_LENGTH"
      by auto
  qed
  have c: "monitor_token pyfloat [] fetched = Inr (final, events) \<longrightarrow>
        length final \<le> PRICE_HISTORY_LENGTH
        \<and> final = drop (length (observed_prices fetched) - PRICE_HISTORY_LENGTH)
                    (observed_prices fetched)"
  proof
    assume run: "monitor_token pyfloat [] fetched = Inr (final, events)"
    have "final = foldl update_history [] (observed_prices fetched)"
      by (rule monitor_token_history [OF run])
    also have "\<dots> = drop (length (observed_prices fetched) - PRICE_HISTORY_LENGTH)
                    (observed_prices fetched)"
      using foldl_update_history [of "[]" "observed_prices fetched"] by simp
    finally have eq: "final = drop (length (observed_prices fetched) - PRICE_HISTORY_LENGTH)
                    (observed_prices fetched)" .
    then have "length final \<le> PRICE_HISTORY_LENGTH" by simp
    with eq show "length final \<le> PRICE_HISTORY_LENGTH
        \<and> final = drop (length (observed_prices fetched) - PRICE_HISTORY_LENGTH)
                    (observed_prices fetched)" by simp
  qed
  from a b c show ?thesis by blast
qed

theorem price_history_fifo_witness:
  "length [1, 2, 3, 4, 5 :: real] = PRICE_HISTORY_LENGTH
   \<and> update_history [1, 2, 3, 4, 5] 6 = [2, 3, 4, 5, 6]
   \<and> length (update_history [1, 2, 3, 4, 5] 6) = PRICE_HISTORY_LENGTH
   \<and> observed_prices (map (\<lambda>p. Some (quote p 0)) [1, 2, 3, 4, 5, 6]) = [1, 2, 3, 4, 5, 6]
   \<and> (case monitor_token Inr [] (map (\<lambda>p. Some (quote p 0)) [1, 2, 3, 4, 5, 6]) of
        Inl e \<Rightarrow> False
      | Inr (final, events) \<Rightarrow> final = [2, 3, 4, 5, 6])"
proof -
  have l: "length [1, 2, 3, 4, 5 :: real] = PRICE_HISTORY_LENGTH"
    by (simp add: PRICE_HISTORY_LENGTH_def)
  have o: "observed_prices (map (\<lambda>p. Some (quote p 0)) [1, 2, 3, 4, 5, 6]) = [1, 2, 3, 4, 5, 6]"
    by (simp add: quote_def)
  obtain final events where
    run: "monitor_token Inr [] (map (\<lambda>p. Some (quote p 0)) [1, 2, 3, 4, 5, 6 :: real])
            = Inr (final, events)"
    using sample_run by blast
  from price_history_fifo [of "[1, 2, 3, 4, 5]" 6 Inr
        "map (\<lambda>p. Some (quote p 0)) [1, 2, 3, 4, 5, 6]" final events] l o run
  show ?thesis by (simp add: PRICE_HISTORY_LENGTH_def)
qed

subsection \<open>Monitor loop\<close>

text \<open>
  Claim C8. A fetch that fails by returning \<^verbatim>\<open>None\<close> (a \<^verbatim>\<open>ClientError\<close>, a status
  other than 200, a reply without \<^verbatim>\<open>sellAmount\<close>) is skipped: the pass raises nothing,
  leaves the price history as it was, logs and sleeps, and the loop goes on from the
  same history. A fetch that fails on a malformed reply with status 200 is not: with
  \<^verbatim>\<open>sellAmount\<close> 0 the division raises \<^verbatim>\<open>ZeroDivisionError\<close>, with a field that
  \<^verbatim>\<open>float\<close> rejects it raises \<^verbatim>\<open>ValueError\<close>; neither handler of
  \<^verbatim>\<open>fetch_order_book_eth\<close> catches these, the \<^verbatim>\<open>await\<close> in the loop has none, and
  the exception ends the loop, against the claim.
\<close>

theorem fetch_failure_cycles:
  "monitor_iteration Inr (\<lambda>x. x) 0 h
     (Response 200 \<lparr>qr_sellAmount = Some 0, qr_buyAmount = Some 1000000,
                    qr_estimatedPriceImpact = None\<rparr>)
     = Inl ZeroDivisionError
   \<and> monitor_loop Inr (\<lambda>x. x) 0 h
     (Response 200 \<lparr>qr_sellAmount = Some 0, qr_buyAmount = Some 1000000,
                    qr_estimatedPriceImpact = None\<rparr> # later)
     = Inl ZeroDivisionError
   \<and> monitor_iteration (\<lambda>raw. Inl ValueError) pystr zero h
     (Response 200 \<lparr>qr_sellAmount = Some raw_sell, qr_buyAmount = buy,
                    qr_estimatedPriceImpact = impact\<rparr>)
     = Inl ValueError
   \<and> monitor_iteration pyfloat pystr zero h RaisesClientError
     = Inr (h, [LogFetchFailed, Sleep CHECK_INTERVAL])
   \<and> monitor_iteration pyfloat pystr zero h (Response 500 data)
     = Inr (h, [LogFetchFailed, Sleep CHECK_INTERVAL])
   \<and> monitor_iteration pyfloat pystr zero h (Response 200 (data\<lparr>qr_sellAmount := None\<rparr>))
     = Inr (h, [LogFetchFailed, Sleep CHECK_INTERVAL])
   \<and> monitor_loop pyfloat pystr zero h (RaisesClientError # later)
     = (case monitor_loop pyfloat pystr zero h later of
          Inl e \<Rightarrow> Inl e
        | Inr (final, events) \<Rightarrow> Inr (final, [LogFetchFailed, Sleep CHECK_INTERVAL] @ events))"
proof -
  let ?bad = "Response 200 \<lparr>qr_sellAmount = Some (0 :: real), qr_buyAmount = Some 1000000,
                    qr_estimatedPriceImpact = None\<rparr>"
  have f1: "fetch_order_book_eth Inr (\<lambda>x. x) 0 ?bad = Inl ZeroDivisionError"
    by (simp add: fetch_order_book_eth_def parse_quote_def round_binary64_def)
  have f2: "fetch_order_book_eth (\<lambda>raw. Inl ValueError) pystr zero
     (Response 200 \<lparr>qr_sellAmount = Some raw_sell, qr_buyAmount = buy,
                    qr_estimatedPriceImpact = impact\<rparr>) = Inl ValueError"
    by (simp add: fetch_order_book_eth_def parse_quote_def)
  have f3: "fetch_order_book_eth pyfloat pystr zero RaisesClientError = Inr None"
    by (simp add: fetch_order_book_eth_def)
  have f4: "fetch_order_book_eth pyfloat pystr zero (Response 500 data) = Inr None"
    by (simp add: fetch_order_book_eth_def)
  have f5: "fetch_order_book_eth pyfloat pystr zero
      (Response 200 (data\<lparr>qr_sellAmount := None\<rparr>)) = Inr None"
    by (simp add: fetch_order_book_eth_def parse_quote_def)
  have l: "monitor_loop pyfloat pystr zero h (RaisesClientError # later)
     = (case monitor_loop pyfloat pystr zero h later of
          Inl e \<Rightarrow> Inl e
        | Inr (final, events) \<Rightarrow> Inr (final, [LogFetchFailed, Sleep CHECK_INTERVAL] @ events))"
    by (simp add: fetch_none_skips [OF f3])
  from fetch_raises_leaves [OF f1] fetch_raises_leaves [OF f2]
    fetch_none_skips [OF f3] fetch_none_skips [OF f4] fetch_none_skips [OF f5] l
  show ?thesis by simp
qed

subsection \<open>Scoring engine\<close>

text \<open>
  Claim C3. \<^verbatim>\<open>calculate_depth\<close> returns the triple \<open>(None, None, None)\<close> when the
  order book is \<^verbatim>\<open>None\<close> or lacks the bids or the asks. When both are present and
  the bids are empty, the guard lets the order book through and \<^verbatim>\<open>bids[0]\<close> raises
  \<^verbatim>\<open>IndexError\<close>: the code does not reach the invalid result that the claim states
  for an empty side.
\<close>

theorem calculate_depth_empty_bids:
  "calculate_depth Inr
     (Some \<lparr>ob_bids = Some [], ob_asks = Some [(101 :: real, 2)], ob_price = None,
            ob_estimatedPriceImpact = None, ob_other_keys = False\<rparr>)
   = Inl IndexError
   \<and> calculate_depth pyfloat (Some (ob\<lparr>ob_bids := Some [], ob_asks := Some []\<rparr>))
       = Inl IndexError
   \<and> calculate_depth pyfloat (Some (ob\<lparr>ob_bids := None\<rparr>)) = Inr (None, None, None)
   \<and> calculate_depth pyfloat (Some (ob\<lparr>ob_asks := None\<rparr>)) = Inr (None, None, None)
   \<and> calculate_depth pyfloat None = Inr (None, None, None)"
proof -
  have a: "calculate_depth Inr
     (Some \<lparr>ob_bids = Some [], ob_asks = Some [(101 :: real, 2)], ob_price = None,
            ob_estimatedPriceImpact = None, ob_other_keys = False\<rparr>)
   = Inl IndexError"
    by (simp add: calculate_depth_def truthy_def dict_empty_def best_price_def
        ORDER_BOOK_DEPTH_def)
  have b: "calculate_depth pyfloat (Some (ob\<lparr>ob_bids := Some [], ob_asks := Some []\<rparr>))
       = Inl IndexError"
    by (simp add: calculate_depth_def truthy_def dict_empty_def best_price_def)
  have c: "calculate_depth pyfloat (Some (ob\<lparr>ob_bids := None\<rparr>)) = Inr (None, None, None)"
    by (simp add: calculate_depth_def)
  have d: "calculate_depth pyfloat (Some (ob\<lparr>ob_asks := None\<rparr>)) = Inr (None, None, None)"
    by (simp add: calculate_depth_def split: option.split)
  have e: "calculate_depth pyfloat None = Inr (None, None, None)"
    by (simp add: calculate_depth_def)
  from a b c d e show ?thesis by simp
qed

text \<open>
  Claim C4, as the code has it. For every price less than or equal to 0,
  \<^verbatim>\<open>assess_risk\<close> raises nothing and returns the risk score 50: such a price falls
  into the first tier, below 0.01.
\<close>

theorem assess_risk_nonpositive:
  "price \<le> 0 \<Longrightarrow> assess_risk price = Inr 50 \<and> \<not> isl (assess_risk price)"
  by (simp add: assess_risk_value)

theorem assess_risk_nonpositive_witness:
  "(- 3 :: real) \<le> 0 \<and> assess_risk (- 3) = Inr 50 \<and> \<not> isl (assess_risk (- 3))"
  using assess_risk_nonpositive [of "- 3"] by simp

text \<open>The claim as written (an error for a price \<open>\<le> 0\<close>) fails at the prices 0 and -1.\<close>

theorem assess_risk_nonpositive_counterexample:
  "assess_risk 0 = Inr 50 \<and> assess_risk (- 1) = Inr 50"
  by (simp add: assess_risk_def assess_risk_chain_def MAX_RISK_SCORE_def)

text \<open>
  Claim C5, as the code has it. \<^verbatim>\<open>evaluate_liquidity\<close> returns 0 when the price impact
  is absent. When it is present and converts to the number \<open>impact\<close>, and the binary64
  sum \<open>1 + impact\<close> is not zero, it returns \<open>min 100\<close> of \<^verbatim>\<open>1 / (1 + impact) * 100\<close>
  with each of the three operations rounded to binary64, for a negative impact as for
  a non-negative one: the code has no check of the sign. For \<open>impact \<ge> 0\<close> the sum is
  never zero and the result lies in \<open>[0, 100]\<close>. The rounded expression is not
  \<open>100 / (1 + impact)\<close>: at impact 2 it is 2345624805922133 / 2^46
  (33.33333333333333), where the float \<open>100 / 3\<close> is 33.333333333333336; at impact
  0.5 it is 66.66666666666666 and at impact 6 it is 14.285714285714285.
\<close>

theorem evaluate_liquidity_cases:
  "(ob_estimatedPriceImpact ob = None \<longrightarrow> evaluate_liquidity pyfloat ob = Inr 0)
   \<and> (ob_estimatedPriceImpact ob = Some raw \<and> pyfloat raw = Inr impact
        \<and> round_binary64 (1 + impact) \<noteq> 0
        \<longrightarrow> evaluate_liquidity pyfloat ob
            = Inr (min 100 (round_binary64
                     (round_binary64 (1 / round_binary64 (1 + impact)) * 100))))
   \<and> (ob_estimatedPriceImpact ob = Some raw \<and> pyfloat raw = Inr impact \<and> 0 \<le> impact
        \<longrightarrow> round_binary64 (1 + impact) \<noteq> 0
            \<and> 0 \<le> min 100 (round_binary64
                     (round_binary64 (1 / round_binary64 (1 + impact)) * 100))
            \<and> min 100 (round_binary64
                     (round_binary64 (1 / round_binary64 (1 + impact)) * 100)) \<le> 100)"
proof -
  have a: "ob_estimatedPriceImpact ob = None \<longrightarrow> evaluate_liquidity pyfloat ob = Inr 0"
    by (simp add: evaluate_liquidity_def)
  have b: "ob_estimatedPriceImpact ob = Some raw \<and> pyfloat raw = Inr impact
        \<and> round_binary64 (1 + impact) \<noteq> 0
        \<longrightarrow> evaluate_liquidity pyfloat ob
            = Inr (min 100 (round_binary64
                     (round_binary64 (1 / round_binary64 (1 + impact)) * 100)))"
    by (auto simp: evaluate_liquidity_def py_min_def MAX_LIQUIDITY_SCORE_def Let_def min_def)
  have c: "ob_estimatedPriceImpact ob = Some raw \<and> pyfloat raw = Inr impact \<and> 0 \<le> impact
        \<longrightarrow> round_binary64 (1 + impact) \<noteq> 0
            \<and> 0 \<le> min 100 (round_binary64
                     (round_binary64 (1 / round_binary64 (1 + impact)) * 100))
            \<and> min 100 (round_binary64
                     (round_binary64 (1 / round_binary64 (1 + impact)) * 100)) \<le> 100"
  proof
    assume h: "ob_estimatedPriceImpact ob = Some raw \<and> pyfloat raw = Inr impact \<and> 0 \<le> impact"
    then have d: "0 < round_binary64 (1 + impact)" by (simp add: round_binary64_pos)
    then have "0 \<le> 1 / round_binary64 (1 + impact)" by simp
    then have "0 \<le> round_binary64 (1 / round_binary64 (1 + impact))"
      by (rule round_binary64_nonneg)
    then have "0 \<le> round_binary64 (1 / round_binary64 (1 + impact)) * 100" by simp
    then have "0 \<le> round_binary64 (round_binary64 (1 / round_binary64 (1 + impact)) * 100)"
      by (rule round_binary64_nonneg)
    with d show "round_binary64 (1 + impact) \<noteq> 0
            \<and> 0 \<le> min 100 (round_binary64
                     (round_binary64 (1 / round_binary64 (1 + impact)) * 100))
            \<and> min 100 (round_binary64
                     (round_binary64 (1 / round_binary64 (1 + impact)) * 100)) \<le> 100"
      by simp
  qed
  from a b c show ?thesis by blast
qed

theorem evaluate_liquidity_cases_witness:
  "evaluate_liquidity Inr
     \<lparr>ob_bids = None, ob_asks = None, ob_price = Some 1,
      ob_estimatedPriceImpact = None :: real option, ob_other_keys = False\<rparr> = Inr 0
   \<and> evaluate_liquidity Inr
     \<lparr>ob_bids = None, ob_asks = None, ob_price = Some 1,
      ob_estimatedPriceImpact = Some (2 :: real), ob_other_keys = False\<rparr>
       = Inr (2345624805922133 / 2 ^ 46)
   \<and> (2345624805922133 / 2 ^ 46 :: real) \<noteq> round_binary64 (100 / (1 + 2))
   \<and> evaluate_liquidity Inr
     \<lparr>ob_bids = None, ob_asks = None, ob_price = Some 1,
      ob_estimatedPriceImpact = Some (1 / 2 :: real), ob_other_keys = False\<rparr>
       = Inr (2345624805922133 / 2 ^ 45)
   \<and> evaluate_liquidity Inr
     \<lparr>ob_bids = None, ob_asks = None, ob_price = Some 1,
      ob_estimatedPriceImpact = Some (6 :: real), ob_other_keys = False\<rparr>
       = Inr (2010535547933257 / 2 ^ 47)
   \<and> evaluate_liquidity Inr
     \<lparr>ob_bids = None, ob_asks = None, ob_price = Some 1,
      ob_estimatedPriceImpact = Some (- 3 :: real), ob_other_keys = False\<rparr> = Inr (- 50)"
proof -
  let ?absent = "\<lparr>ob_bids = None, ob_asks = None, ob_price = Some 1,
      ob_estimatedPriceImpact = None :: real option, ob_other_keys = False\<rparr>"
  let ?two = "\<lparr>ob_bids = None, ob_asks = None, ob_price = Some 1,
      ob_estimatedPriceImpact = Some (2 :: real), ob_other_keys = False\<rparr>"
  let ?half = "\<lparr>ob_bids = None, ob_asks = None, ob_price = Some 1,
      ob_estimatedPriceImpact = Some (1 / 2 :: real), ob_other_keys = False\<rparr>"
  let ?six = "\<lparr>ob_bids = None, ob_asks = None, ob_price = Some 1,
      ob_estimatedPriceImpact = Some (6 :: real), ob_other_keys = False\<rparr>"
  let ?minus = "\<lparr>ob_bids = None, ob_asks = None, ob_price = Some 1,
      ob_estimatedPriceImpact = Some (- 3 :: real), ob_other_keys = False\<rparr>"
  have n: "(2345624805922133 / 2 ^ 46 :: real) \<noteq> round_binary64 (100 / (1 + 2))"
    by (simp add: float_eval)
  have d2: "round_binary64 (1 + 2) \<noteq> 0" by (simp add: float_eval)
  have v2: "min 100 (round_binary64 (round_binary64 (1 / round_binary64 (1 + 2)) * 100))
      = 2345624805922133 / 2 ^ 46"
    by (simp add: float_eval)
  have dh: "round_binary64 (1 + 1 / 2) \<noteq> 0" by (simp add: float_eval)
  have vh: "min 100 (round_binary64 (round_binary64 (1 / round_binary64 (1 + 1 / 2)) * 100))
      = 2345624805922133 / 2 ^ 45"
    by (simp add: float_eval)
  have d6: "round_binary64 (1 + 6) \<noteq> 0" by (simp add: float_eval)
  have v6: "min 100 (round_binary64 (round_binary64 (1 / round_binary64 (1 + 6)) * 100))
      = 2010535547933257 / 2 ^ 47"
    by (simp add: float_eval)
  have d3: "round_binary64 (1 + (- 3)) \<noteq> 0" by (simp add: float_eval)
  have v3: "min 100 (round_binary64 (round_binary64 (1 / round_binary64 (1 + (- 3))) * 100))
      = - 50"
    by (simp add: float_eval)
  have w1: "evaluate_liquidity Inr ?absent = Inr 0"
    using evaluate_liquidity_cases [where pyfloat = Inr and ob = ?absent and raw = 0
        and impact = 0]
    by simp
  have w2: "evaluate_liquidity Inr ?two = Inr (2345624805922133 / 2 ^ 46)"
    using evaluate_liquidity_cases [where pyfloat = Inr and ob = ?two and raw = 2
        and impact = 2] d2
    by (simp only: v2) simp
  have wh: "evaluate_liquidity Inr ?half = Inr (2345624805922133 / 2 ^ 45)"
    using evaluate_liquidity_cases [where pyfloat = Inr and ob = ?half and raw = "1 / 2"
        and impact = "1 / 2"] dh
    by (simp only: vh) simp
  have w6: "evaluate_liquidity Inr ?six = Inr (2010535547933257 / 2 ^ 47)"
    using evaluate_liquidity_cases [where pyfloat = Inr and ob = ?six and raw = 6
        and impact = 6] d6
    by (simp only: v6) simp
  have w3: "evaluate_liquidity Inr ?minus = Inr (- 50)"
    using evaluate_liquidity_cases [where pyfloat = Inr and ob = ?minus and raw = "- 3"
        and impact = "- 3"] d3
    by (simp only: v3) simp
  from w1 w2 n wh w6 w3 show ?thesis by blast
qed

text \<open>The claim as written (an error for a negative impact) fails at the impact -0.5.\<close>

theorem evaluate_liquidity_negative_counterexample:
  "evaluate_liquidity Inr
     \<lparr>ob_bids = None, ob_asks = None, ob_price = Some 1,
      ob_estimatedPriceImpact = Some (- 1 / 2 :: real), ob_other_keys = False\<rparr>
   = Inr 100"
  by (simp add: evaluate_liquidity_def py_min_def MAX_LIQUIDITY_SCORE_def float_eval)

text \<open>
  Claim C6. For all inputs, \<^verbatim>\<open>standardize_score\<close> is the clamp to \<open>[0, 100]\<close> of
  \<open>(liquidity_score / 100) * 60 - (risk_score / 50) * 40\<close>; it is 60 at (100, 0), 0 at
  (0, 50) and 0 at (0, 0), and its result always lies in \<open>[0, 100]\<close>.
\<close>

theorem standardize_score_clamp:
  "standardize_score liquidity_score risk_score
     = spec_clamp 0 100 ((liquidity_score / 100) * 60 - (risk_score / 50) * 40)
   \<and> standardize_score 100 0 = 60
   \<and> standardize_score 0 50 = 0
   \<and> standardize_score 0 0 = 0
   \<and> 0 \<le> standardize_score liquidity_score risk_score
   \<and> standardize_score liquidity_score risk_score \<le> 100"
  by (simp add: standardize_score_unfold spec_clamp_def py_min_def py_max_def)

text \<open>
  Claim C9. For a liquidity score in \<open>[0, 100]\<close> and a risk score in \<open>[0, 50]\<close>,
  \<^verbatim>\<open>standardize_score\<close> is at most 60, so the test \<^verbatim>\<open>combined_score > 60\<close> of
  \<^verbatim>\<open>main\<close> fails: the advice is never the favourable one, also in every report that
  \<^verbatim>\<open>main\<close> prints with these two scores.
\<close>

theorem nominal_score_at_most_60:
  "0 \<le> liquidity_score \<Longrightarrow> liquidity_score \<le> 100 \<Longrightarrow>
   0 \<le> risk_score \<Longrightarrow> risk_score \<le> 50 \<Longrightarrow>
     standardize_score liquidity_score risk_score \<le> 60
     \<and> main_advice (standardize_score liquidity_score risk_score) = NotRecommended
     \<and> (main_report pyfloat order_book = Inr (Some rep)
          \<and> rep_liquidity rep = liquidity_score \<and> rep_risk rep = risk_score
          \<longrightarrow> rep_advice rep = NotRecommended)"
proof -
  assume r: "0 \<le> liquidity_score" "liquidity_score \<le> 100" "0 \<le> risk_score" "risk_score \<le> 50"
  then have le: "standardize_score liquidity_score risk_score \<le> 60"
    by (simp add: standardize_score_unfold py_min_def py_max_def)
  then have adv: "main_advice (standardize_score liquidity_score risk_score) = NotRecommended"
    by (simp add: main_advice_def)
  have "main_report pyfloat order_book = Inr (Some rep)
          \<and> rep_liquidity rep = liquidity_score \<and> rep_risk rep = risk_score
          \<longrightarrow> rep_advice rep = NotRecommended"
    using adv main_report_fields [of pyfloat order_book rep] by auto
  with le adv show ?thesis by simp
qed

theorem nominal_score_at_most_60_witness:
  "(0 :: real) \<le> 100 \<and> (100 :: real) \<le> 100 \<and> (0 :: real) \<le> 0 \<and> (0 :: real) \<le> 50
   \<and> standardize_score 100 0 \<le> 60
   \<and> main_advice (standardize_score 100 0) = NotRecommended
   \<and> (case main_report Inr (Some (quote 5 0)) of
        Inr (Some rep) \<Rightarrow>
          rep_liquidity rep = 100 \<and> rep_risk rep = 25 / 2 \<and> rep_combined rep = 50
          \<and> rep_advice rep = NotRecommended
      | _ \<Rightarrow> False)"
proof -
  have m: "main_report Inr (Some (quote 5 0))
      = Inr (Some \<lparr>rep_combined = 50, rep_liquidity = 100, rep_risk = 25 / 2,
                   rep_price = 5, rep_advice = main_advice 50\<rparr>)"
    by (simp add: main_report_def quote_def truthy_def dict_empty_def evaluate_liquidity_def
        py_min_def py_max_def MAX_LIQUIDITY_SCORE_def assess_risk_value
        standardize_score_unfold float_eval)
  from nominal_score_at_most_60 [of 100 0 Inr "Some (quote 5 0)"
      "\<lparr>rep_combined = 50, rep_liquidity = 100, rep_risk = 25 / 2,
        rep_price = 5, rep_advice = main_advice 50\<rparr>"]
  have a:
    "standardize_score 100 0 \<le> 60 \<and> main_advice (standardize_score 100 0) = NotRecommended"
    by simp
  from nominal_score_at_most_60 [of 100 "25 / 2" Inr "Some (quote 5 0)"
      "\<lparr>rep_combined = 50, rep_liquidity = 100, rep_risk = 25 / 2,
        rep_price = 5, rep_advice = main_advice 50\<rparr>"] m
  have b: "main_advice 50 = NotRecommended" by simp
  from a b m show ?thesis by simp
qed

text \<open>
  Claim C10. \<^verbatim>\<open>assess_risk\<close> returns for every price, zero and negative ones
  included: 50 below 0.01, 25 from 0.01 to below 1, 12.5 otherwise, and no other value.
  Every branch of the chain returns, so the statement after it, which would raise
  \<^verbatim>\<open>NameError\<close>, is never executed.
\<close>

theorem assess_risk_total:
  "assess_risk price
     = Inr (if price < 1 / 100 then 50 else if price < 1 then 25 else 125 / 10)
   \<and> (assess_risk price = Inr 50 \<or> assess_risk price = Inr 25
        \<or> assess_risk price = Inr (125 / 10))
   \<and> assess_risk_chain price \<noteq> None
   \<and> assess_risk price \<noteq> Inl NameError"
proof -
  have chain: "assess_risk_chain price \<noteq> None"
    by (cases "price < 1 / 100"; cases "price < 1") (simp_all only: assess_risk_chain_def if_True if_False option.distinct not_False_eq_True)
  have val: "assess_risk price
     = Inr (if price < 1 / 100 then 50 else if price < 1 then 25 else 125 / 10)"
    by (simp add: assess_risk_value)
  from val have three: "assess_risk price = Inr 50 \<or> assess_risk price = Inr 25
        \<or> assess_risk price = Inr (125 / 10)"
    by (simp split: if_splits)
  from val have "assess_risk price \<noteq> Inl NameError" by simp
  with chain val three show ?thesis by blast
qed

end
